theory Spec2Isabelle
  imports Complex_Main "HOL-Library.AList"
begin

section \<open>JavaScript numbers\<close>

text \<open>
  A JavaScript number is modelled as an exact rational, extended with the three special
  values that the program can produce by a failed \<^verbatim>\<open>parseFloat\<close> or a division by zero.
  The rounding of finite results to the nearest double, overflow and underflow are outside
  the model, and the two signed zeros are identified.
\<close>

datatype jsnum = NaN | NInf | Fin rat | PInf

fun js_neg :: "jsnum \<Rightarrow> jsnum" where
  "js_neg NaN = NaN"
| "js_neg NInf = PInf"
| "js_neg (Fin x) = Fin (- x)"
| "js_neg PInf = NInf"

fun js_add :: "jsnum \<Rightarrow> jsnum \<Rightarrow> jsnum" where
  "js_add NaN _ = NaN"
| "js_add _ NaN = NaN"
| "js_add (Fin x) (Fin y) = Fin (x + y)"
| "js_add PInf NInf = NaN"
| "js_add NInf PInf = NaN"
| "js_add PInf _ = PInf"
| "js_add _ PInf = PInf"
| "js_add NInf _ = NInf"
| "js_add _ NInf = NInf"

definition js_sub :: "jsnum \<Rightarrow> jsnum \<Rightarrow> jsnum" where
  "js_sub a b = js_add a (js_neg b)"

text \<open>The sign of a number that is not NaN: \<open>-1\<close>, \<open>0\<close> or \<open>1\<close>.\<close>

fun js_sign :: "jsnum \<Rightarrow> int" where
  "js_sign NaN = 0"
| "js_sign NInf = - 1"
| "js_sign (Fin x) = (if x < 0 then - 1 else if x = 0 then 0 else 1)"
| "js_sign PInf = 1"

fun js_mul :: "jsnum \<Rightarrow> jsnum \<Rightarrow> jsnum" where
  "js_mul NaN _ = NaN"
| "js_mul _ NaN = NaN"
| "js_mul (Fin x) (Fin y) = Fin (x * y)"
| "js_mul a b =
     (if js_sign a * js_sign b = 0 then NaN
      else if js_sign a * js_sign b = 1 then PInf else NInf)"

fun js_div :: "jsnum \<Rightarrow> jsnum \<Rightarrow> jsnum" where
  "js_div NaN _ = NaN"
| "js_div _ NaN = NaN"
| "js_div (Fin x) (Fin y) =
     (if y \<noteq> 0 then Fin (x / y)
      else if x = 0 then NaN else if 0 < x then PInf else NInf)"
| "js_div (Fin x) _ = Fin 0"
| "js_div a (Fin y) = (if (0 \<le> y) = (a = PInf) then PInf else NInf)"
| "js_div _ _ = NaN"

fun js_le :: "jsnum \<Rightarrow> jsnum \<Rightarrow> bool" where
  "js_le NaN _ = False"
| "js_le _ NaN = False"
| "js_le (Fin x) (Fin y) = (x \<le> y)"
| "js_le NInf _ = True"
| "js_le _ PInf = True"
| "js_le _ _ = False"

fun js_lt :: "jsnum \<Rightarrow> jsnum \<Rightarrow> bool" where
  "js_lt NaN _ = False"
| "js_lt _ NaN = False"
| "js_lt (Fin x) (Fin y) = (x < y)"
| "js_lt PInf _ = False"
| "js_lt _ NInf = False"
| "js_lt _ _ = True"

definition js_gt :: "jsnum \<Rightarrow> jsnum \<Rightarrow> bool" where
  "js_gt a b = js_lt b a"

definition js_ge :: "jsnum \<Rightarrow> jsnum \<Rightarrow> bool" where
  "js_ge a b = js_le b a"

text \<open>\<^verbatim>\<open>Math.max\<close> of two arguments: NaN as soon as one argument is NaN.\<close>

fun Math_max :: "jsnum \<Rightarrow> jsnum \<Rightarrow> jsnum" where
  "Math_max NaN _ = NaN"
| "Math_max _ NaN = NaN"
| "Math_max a b = (if js_le a b then b else a)"

text \<open>\<^verbatim>\<open>Math.round\<close>: the nearest integer, a tie going towards plus infinity.\<close>

fun Math_round :: "jsnum \<Rightarrow> jsnum" where
  "Math_round (Fin x) = Fin (of_int \<lfloor>x + 1 / 2\<rfloor>)"
| "Math_round a = a"

section \<open>The clearing price (AutoClearManager.calculateClearPrice)\<close>

text \<open>
  One level of the order book as \<^verbatim>\<open>OrderBookAPI.parseOrderBook\<close> builds it, and the book
  itself. A side of the book that is missing from the object is \<open>None\<close>; \<open>error\<close> is the
  message that \<^verbatim>\<open>getOrderBook\<close> stores when the request failed.
\<close>

record level =
  price :: jsnum
  amount :: jsnum
  total :: jsnum

record orderBook =
  error :: "string option"
  bids :: "level list option"
  asks :: "level list option"

text \<open>The result \<open>None\<close> is the \<^verbatim>\<open>null\<close> of the source: no price is safe.\<close>

definition calculateClearPrice :: "jsnum \<Rightarrow> orderBook \<Rightarrow> jsnum option" where
  "calculateClearPrice costPrice book =
     (case bids book of
        None \<Rightarrow> None
      | Some [] \<Rightarrow> None
      | Some (bid # _) \<Rightarrow>
          (case asks book of
             None \<Rightarrow> None
           | Some [] \<Rightarrow> None
           | Some (ask # _) \<Rightarrow>
               (let bestBid = price bid;
                    bestAsk = price ask;
                    spread = js_sub bestAsk bestBid;
                    targetPrice =
                      (if js_gt spread (Fin (1 / 10)) then js_sub bestAsk (Fin (1 / 10))
                       else bestAsk);
                    targetPrice = Math_max targetPrice costPrice
                in if js_le targetPrice bestBid then None
                   else Some (js_div (Math_round (js_mul targetPrice (Fin 1000))) (Fin 1000)))))"




definition is_fin :: "jsnum \<Rightarrow> bool" where
  "is_fin a = (case a of Fin _ \<Rightarrow> True | _ \<Rightarrow> False)"

text \<open>A book level with a given finite price, for concrete books.\<close>

definition lvl :: "rat \<Rightarrow> level" where
  "lvl p = \<lparr>price = Fin p, amount = Fin 100, total = Fin (p * 100)\<rparr>"

definition book_of :: "rat list \<Rightarrow> rat list \<Rightarrow> orderBook" where
  "book_of bs as = \<lparr>error = None, bids = Some (map lvl bs), asks = Some (map lvl as)\<rparr>"

section \<open>JavaScript values\<close>

text \<open>
  The values that the fields of the program's objects hold. Structural equality on
  \<open>jsval\<close> is the equality that a \<^verbatim>\<open>Map\<close> uses for its keys and, between a number
  and the literal \<open>1\<close> or \<open>2\<close>, the strict equality \<^verbatim>\<open>===\<close> (for NaN the two differ;
  the program compares no field that can be NaN with \<^verbatim>\<open>===\<close> against NaN).
\<close>

datatype jsval = Undefined | Null | Num jsnum | Str string

fun truthy :: "jsval \<Rightarrow> bool" where
  "truthy Undefined = False"
| "truthy Null = False"
| "truthy (Num a) = (a \<noteq> NaN \<and> a \<noteq> Fin 0)"
| "truthy (Str s) = (s \<noteq> [])"

text \<open>
  \<^verbatim>\<open>parseFloat\<close> is a builtin of the language: how it reads a string is the parameter
  \<open>pf\<close>. Applied to a value that is no string it reads the value's string form, so a
  number is read back as itself and \<^verbatim>\<open>undefined\<close> and \<^verbatim>\<open>null\<close> give NaN.
\<close>

fun parseFloat :: "(string \<Rightarrow> jsnum) \<Rightarrow> jsval \<Rightarrow> jsnum" where
  "parseFloat pf (Str s) = pf s"
| "parseFloat pf (Num a) = a"
| "parseFloat pf _ = NaN"

text \<open>
  A field that the program only ever assigns numbers to: it is absent (\<^verbatim>\<open>undefined\<close>)
  before the assignment, and \<^verbatim>\<open>null\<close> when a non-finite number came back from the JSON
  file. \<open>ToNumber\<close> is the conversion that arithmetic and comparison apply to it.
\<close>

datatype numfield = Absent | NullNum | Val jsnum

fun ToNumber :: "numfield \<Rightarrow> jsnum" where
  "ToNumber Absent = NaN"
| "ToNumber NullNum = Fin 0"
| "ToNumber (Val a) = a"

fun truthy_num :: "numfield \<Rightarrow> bool" where
  "truthy_num (Val a) = (a \<noteq> NaN \<and> a \<noteq> Fin 0)"
| "truthy_num _ = False"

section \<open>Order ids and their string form\<close>

text \<open>
  An order id is a number (\<^verbatim>\<open>@param {number} params.orderId\<close>), and the loader reads the
  names of the stored document with \<^verbatim>\<open>parseInt\<close>: ids are integers, or the NaN that
  \<^verbatim>\<open>parseInt\<close> returns for a name without digits. The decimal form \<open>ToString\<close> is the one
  JavaScript prints for integers below \<open>10^21\<close> in absolute value.
\<close>

datatype orderid = NaNId | IntId int

definition digit_char :: "nat \<Rightarrow> char" where
  "digit_char d = ''0123456789'' ! d"

fun dec :: "nat \<Rightarrow> string" where
  "dec n = (if n < 10 then [digit_char n] else dec (n div 10) @ [digit_char (n mod 10)])"

declare dec.simps [simp del]

fun ToString :: "orderid \<Rightarrow> string" where
  "ToString NaNId = ''NaN''"
| "ToString (IntId n) = (if n < 0 then CHR ''-'' # dec (nat (- n)) else dec (nat n))"






section \<open>The registry of tracked orders (AutoClearManager)\<close>

datatype status = Pending | Filled | Clearing | Cleared | Error

text \<open>
  The message of the error that a failed clearing stores in \<open>errorMessage\<close>:
  \<^item> \<open>InvalidFilledShares\<close>: the text thrown when \<open>filledShares\<close> is missing or not positive;
  \<^item> \<open>OrderBookUnavailable e\<close>: the text thrown when the book could not be read, which ends
    with the book's own error \<open>e\<close> or, for \<open>None\<close>, with the default "data missing";
  \<^item> \<open>NoSafeClearPrice\<close>: the text thrown when no clearing price is returned;
  \<^item> \<open>Thrown m\<close>: the message \<open>m\<close> of an error thrown by a collaborator (the topic lookup,
    the order book client's constructor, the exchange client).
\<close>

datatype message = InvalidFilledShares | OrderBookUnavailable "string option"
  | NoSafeClearPrice | Thrown string

record closedOrder =
  orderId :: orderid
  status :: jsval
  filled :: string

record trackParams =
  orderId :: orderid
  topicId :: jsval
  position :: jsval
  side :: jsval
  price :: jsval
  amount :: jsval

record trackedOrder =
  orderId :: jsval
  topicId :: jsval
  position :: jsval
  side :: jsval
  price :: numfield
  amount :: numfield
  trackedAt :: jsval
  status :: status
  errorMessage :: "message option"
  reverseOrderId :: jsval
  filledAt :: jsval
  filledShares :: numfield
  filledUsdt :: numfield
  reversePrice :: numfield
  reverseShares :: numfield
  clearedAt :: jsval

text \<open>
  What the outside world does while one order is processed: the clock readings, the
  outcome of the lookups that precede the order book request (they may throw), the order
  book that \<^verbatim>\<open>getOrderBook\<close> returns (it catches its own errors), and the outcome of
  \<^verbatim>\<open>sdk.sellByTopic\<close>: an error, or a response whose
  \<^verbatim>\<open>result?.orderData?.orderId\<close> is the given value.
\<close>

datatype sellResult = SellThrows string | SellReturns jsval

datatype bookResult = LookupThrows string | Book orderBook

record world =
  filledClock :: string
  bookResult :: bookResult
  sellResult :: sellResult
  clearedClock :: string

text \<open>
  The manager. The \<^verbatim>\<open>Map\<close> of tracked orders is an association list in insertion order;
  a tracked order object is referred to by its key. \<open>storageFile\<close> is the content of the
  JSON file: \<open>None\<close> when it cannot be read or parsed, otherwise the members of the stored
  object (their order in the file is not modelled; writing the file always succeeds).
  \<open>journal\<close> is an observer's log of the assignments to \<open>status\<close>, in program order; no
  function reads it.
\<close>

record manager =
  trackedOrders :: "(orderid \<times> trackedOrder) list"
  storageFile :: "(string \<times> trackedOrder) list option"
  isInitialized :: bool
  journal :: "(orderid \<times> status) list"

text \<open>
  What \<^verbatim>\<open>JSON.stringify\<close> followed by \<^verbatim>\<open>JSON.parse\<close> makes of a field: a number that is
  not finite becomes \<^verbatim>\<open>null\<close>, an absent field stays absent, everything else is kept.
\<close>

fun json_num :: "numfield \<Rightarrow> numfield" where
  "json_num (Val a) = (if is_fin a then Val a else NullNum)"
| "json_num f = f"

fun json_val :: "jsval \<Rightarrow> jsval" where
  "json_val (Num a) = (if is_fin a then Num a else Null)"
| "json_val v = v"

definition toJSON :: "trackedOrder \<Rightarrow> trackedOrder" where
  "toJSON t =
     \<lparr>trackedOrder.orderId = json_val (trackedOrder.orderId t),
      topicId = json_val (trackedOrder.topicId t),
      position = json_val (trackedOrder.position t),
      side = json_val (trackedOrder.side t),
      price = json_num (trackedOrder.price t),
      amount = json_num (trackedOrder.amount t),
      trackedAt = json_val (trackedAt t),
      status = trackedOrder.status t,
      errorMessage = errorMessage t,
      reverseOrderId = json_val (reverseOrderId t),
      filledAt = json_val (filledAt t),
      filledShares = json_num (filledShares t),
      filledUsdt = json_num (filledUsdt t),
      reversePrice = json_num (reversePrice t),
      reverseShares = json_num (reverseShares t),
      clearedAt = json_val (clearedAt t)\<rparr>"

text \<open>\<^verbatim>\<open>save\<close>: \<^verbatim>\<open>Object.fromEntries\<close> names each member by the string form of its key.\<close>

definition save :: "manager \<Rightarrow> manager" where
  "save m = m\<lparr>storageFile := Some (map (\<lambda>(k, t). (ToString k, toJSON t)) (trackedOrders m))\<rparr>"


text \<open>An order id as the number that is stored in the field \<open>orderId\<close>.\<close>

fun id_val :: "orderid \<Rightarrow> jsval" where
  "id_val NaNId = Num NaN"
| "id_val (IntId n) = Num (Fin (of_int n))"

text \<open>\<^verbatim>\<open>trackOrder\<close> returns the manager and the new record; \<open>now\<close> is the clock reading.\<close>

definition trackOrder ::
  "(string \<Rightarrow> jsnum) \<Rightarrow> string \<Rightarrow> trackParams \<Rightarrow> manager \<Rightarrow> manager \<times> trackedOrder" where
  "trackOrder pf now params m =
     (let orderInfo =
            \<lparr>trackedOrder.orderId = id_val (trackParams.orderId params),
             topicId = trackParams.topicId params,
             position = trackParams.position params,
             side = trackParams.side params,
             price = Val (parseFloat pf (trackParams.price params)),
             amount = Val (parseFloat pf (trackParams.amount params)),
             trackedAt = Str now,
             status = Pending,
             errorMessage = None,
             reverseOrderId = Null,
             filledAt = Undefined,
             filledShares = Absent,
             filledUsdt = Absent,
             reversePrice = Absent,
             reverseShares = Absent,
             clearedAt = Undefined\<rparr>
      in (save (m\<lparr>trackedOrders :=
                     AList.update (trackParams.orderId params) orderInfo (trackedOrders m),
                   journal := journal m @ [(trackParams.orderId params, Pending)]\<rparr>),
          orderInfo))"

text \<open>An assignment to fields of the tracked order object that is stored under a key.\<close>

definition modify :: "orderid \<Rightarrow> (trackedOrder \<Rightarrow> trackedOrder) \<Rightarrow> manager \<Rightarrow> manager" where
  "modify k f m = m\<lparr>trackedOrders := AList.map_entry k f (trackedOrders m)\<rparr>"

definition setStatus :: "orderid \<Rightarrow> status \<Rightarrow> manager \<Rightarrow> manager" where
  "setStatus k st m =
     (modify k (\<lambda>t. t\<lparr>trackedOrder.status := st\<rparr>) m)\<lparr>journal := journal m @ [(k, st)]\<rparr>"

definition get :: "manager \<Rightarrow> orderid \<Rightarrow> trackedOrder option" where
  "get m k = map_of (trackedOrders m) k"

definition truthy_str :: "string option \<Rightarrow> bool" where
  "truthy_str e = (case e of None \<Rightarrow> False | Some s \<Rightarrow> s \<noteq> [])"

text \<open>
  The body of the \<^verbatim>\<open>try\<close> block of \<^verbatim>\<open>createReverseClearOrder\<close> for a buy order, from the
  check of \<open>filledShares\<close> to the call of the exchange client: \<open>Inl\<close> is the message of the
  error thrown, \<open>Inr\<close> the clearing price and the id of the reverse order.
\<close>

definition clearAttempt :: "world \<Rightarrow> trackedOrder \<Rightarrow> message + jsnum \<times> jsval" where
  "clearAttempt w t =
     (if \<not> truthy_num (filledShares t) \<or> js_le (ToNumber (filledShares t)) (Fin 0)
      then Inl InvalidFilledShares
      else
        let costPrice = js_div (ToNumber (trackedOrder.price t)) (Fin 100)
        in case bookResult w of
             LookupThrows e \<Rightarrow> Inl (Thrown e)
           | Book book \<Rightarrow>
               if truthy_str (error book) \<or> bids book = None \<or> asks book = None
               then Inl (OrderBookUnavailable (if truthy_str (error book) then error book else None))
               else
                 (case calculateClearPrice costPrice book of
                    None \<Rightarrow> Inl NoSafeClearPrice
                  | Some clearPrice \<Rightarrow>
                      if clearPrice = NaN \<or> clearPrice = Fin 0 then Inl NoSafeClearPrice
                      else
                        (case sellResult w of
                           SellThrows e \<Rightarrow> Inl (Thrown e)
                         | SellReturns rid \<Rightarrow>
                             Inr (clearPrice, if truthy rid then rid else Null))))"

text \<open>
  \<^verbatim>\<open>createReverseClearOrder\<close> on the tracked order stored under \<open>k\<close>. The last \<open>save\<close> of
  each branch is the one of the \<^verbatim>\<open>finally\<close> block. For a key that is not tracked the
  model does nothing (the source would work on an object outside the map).
\<close>

definition createReverseClearOrder :: "world \<Rightarrow> orderid \<Rightarrow> manager \<Rightarrow> manager" where
  "createReverseClearOrder w k m =
     (case get m k of
        None \<Rightarrow> m
      | Some t \<Rightarrow>
          let m1 = save (setStatus k Clearing m)
          in if trackedOrder.side t \<noteq> Num (Fin 1)
             then save (save (setStatus k Cleared m1))
             else
               (case clearAttempt w t of
                  Inr (clearPrice, rid) \<Rightarrow>
                    save (modify k
                      (\<lambda>t. t\<lparr>reverseOrderId := rid,
                              reversePrice := Val clearPrice,
                              reverseShares := filledShares t,
                              clearedAt := Str (clearedClock w)\<rparr>)
                      (setStatus k Cleared m1))
                | Inl msg \<Rightarrow>
                    save (modify k (\<lambda>t. t\<lparr>errorMessage := Some msg\<rparr>)
                      (setStatus k Error m1))))"





definition getTrackedOrders :: "manager \<Rightarrow> trackedOrder list" where
  "getTrackedOrders m = map snd (trackedOrders m)"

definition getOrdersByStatus :: "manager \<Rightarrow> status \<Rightarrow> trackedOrder list" where
  "getOrdersByStatus m st = filter (\<lambda>order. trackedOrder.status order = st) (getTrackedOrders m)"

record stats =
  total :: nat
  pending :: nat
  filled :: nat
  clearing :: nat
  cleared :: nat
  error :: nat

definition getStats :: "manager \<Rightarrow> stats" where
  "getStats m =
     (let orders = getTrackedOrders m;
          count = (\<lambda>st. length (filter (\<lambda>order. trackedOrder.status order = st) orders))
      in \<lparr>total = length orders, pending = count Pending, filled = count Filled,
          clearing = count Clearing, cleared = count Cleared, error = count Error\<rparr>)"

definition removeTrackedOrder :: "orderid \<Rightarrow> manager \<Rightarrow> manager \<times> bool" where
  "removeTrackedOrder k m =
     (if get m k \<noteq> None
      then (save (m\<lparr>trackedOrders := AList.delete k (trackedOrders m)\<rparr>), True)
      else (m, False))"

definition clearAll :: "manager \<Rightarrow> manager" where
  "clearAll m = save (m\<lparr>trackedOrders := []\<rparr>)"


section \<open>Sequences of registry operations\<close>




text \<open>
  The steps of the state machine, pending to filled to clearing to cleared or error, and
  the lists of statuses in which every element follows from the one before by a step.
\<close>

fun forward_step :: "status \<Rightarrow> status \<Rightarrow> bool" where
  "forward_step Pending Filled = True"
| "forward_step Filled Clearing = True"
| "forward_step Clearing Cleared = True"
| "forward_step Clearing Error = True"
| "forward_step _ _ = False"

fun forward_path :: "status list \<Rightarrow> bool" where
  "forward_path (a # b # rest) = (forward_step a b \<and> forward_path (b # rest))"
| "forward_path _ = True"

text \<open>
  The statuses that a journal assigns to an order, the status that an order has in a
  manager (as a list of zero or one element), and the history of an order over a run: its
  status at the start followed by the statuses assigned during the run.
\<close>

definition writes :: "orderid \<Rightarrow> (orderid \<times> status) list \<Rightarrow> status list" where
  "writes k j = map snd (filter (\<lambda>e. fst e = k) j)"

definition current :: "manager \<Rightarrow> orderid \<Rightarrow> status list" where
  "current m k = (case get m k of Some t \<Rightarrow> [trackedOrder.status t] | None \<Rightarrow> [])"




text \<open>
  The relation between the managers before and after an admissible operation: the journal
  grows, and for each order the status before followed by the new assignments is a
  forward path that ends in the status after.
\<close>

definition lastof :: "'a list \<Rightarrow> 'a list" where
  "lastof xs = (if xs = [] then [] else [last xs])"


section \<open>The snapshot differ (TradingDashboard.detectOrderChanges)\<close>

text \<open>An open order as the order query returns it; the fields are raw values.\<close>

record openOrder =
  orderId :: jsval
  side :: jsval
  outcome :: jsval
  price :: jsval
  amount :: jsval
  filled :: jsval

text \<open>
  A string made by \<^verbatim>\<open>toFixed(4)\<close> is represented by the number it denotes: the number
  rounded to four decimals, a tie going away from zero. From \<open>10^21\<close> on, \<^verbatim>\<open>toFixed\<close>
  prints the number itself.
\<close>

definition toFixed4 :: "jsnum \<Rightarrow> jsnum" where
  "toFixed4 a =
     (case a of
        Fin x \<Rightarrow>
          if 10 ^ 21 \<le> \<bar>x\<bar> then Fin x
          else if x < 0 then Fin (- (of_int \<lfloor>- x * 10000 + 1 / 2\<rfloor> / 10000))
          else Fin (of_int \<lfloor>x * 10000 + 1 / 2\<rfloor> / 10000)
      | _ \<Rightarrow> a)"

record removalData =
  orderId :: jsval
  side :: string
  outcome :: jsval
  price :: jsnum
  amount :: jsnum
  filled :: jsnum
  title :: jsval

record progressData =
  orderId :: jsval
  side :: string
  outcome :: jsval
  price :: jsnum
  filledAmount :: jsnum
  totalFilled :: jsnum
  totalAmount :: jsnum
  title :: jsval

record creationData =
  orderId :: jsval
  side :: string
  outcome :: jsval
  price :: jsnum
  amount :: jsnum

datatype eventData = Removal removalData | Progress progressData | Creation creationData

record event =
  time :: string
  type :: string
  data :: eventData

datatype notification = notifyOrderFilled removalData | notifyOrderRemoved removalData

text \<open>
  The part of the dashboard that the differ reads and writes. \<open>title\<close> is
  \<^verbatim>\<open>this.topicInfo?.title\<close>; \<open>notifications\<close> lists the calls made to the Telegram notifier.
\<close>

record dashboard =
  eventHistory :: "event list"
  MAX_EVENT_HISTORY :: nat
  previousOrdersMap :: "(jsval \<times> openOrder) list"
  manuallyCancelledOrders :: "jsval list"
  title :: jsval
  notifications :: "notification list"

text \<open>The loop of \<^verbatim>\<open>addEvent\<close> that shifts the oldest events out.\<close>

fun shift_while_longer :: "nat \<Rightarrow> 'a list \<Rightarrow> 'a list" where
  "shift_while_longer mx [] = []"
| "shift_while_longer mx (x # xs) =
     (if mx < length (x # xs) then shift_while_longer mx xs else x # xs)"

definition addEvent :: "string \<Rightarrow> string \<Rightarrow> eventData \<Rightarrow> dashboard \<Rightarrow> dashboard" where
  "addEvent now eventType eventData d =
     d\<lparr>eventHistory :=
         shift_while_longer (MAX_EVENT_HISTORY d)
           (eventHistory d @ [\<lparr>time = now, type = eventType, data = eventData\<rparr>])\<rparr>"

definition sideLabel :: "jsval \<Rightarrow> string" where
  "sideLabel v = (if v = Num (Fin 1) then ''BUY'' else ''SELL'')"

text \<open>\<^verbatim>\<open>v || dflt\<close>.\<close>

definition orElse :: "jsval \<Rightarrow> jsval \<Rightarrow> jsval" where
  "orElse v dflt = (if truthy v then v else dflt)"

text \<open>
  The constant \<^verbatim>\<open>isFilled\<close> of the callback: the comparison is made on the strings
  formatted for the event, read back as numbers.
\<close>

definition isFilled :: "(string \<Rightarrow> jsnum) \<Rightarrow> openOrder \<Rightarrow> bool" where
  "isFilled pf prevOrder =
     (let amount = toFixed4 (parseFloat pf (openOrder.amount prevOrder));
          filled = toFixed4 (parseFloat pf (orElse (openOrder.filled prevOrder) (Num (Fin 0))))
      in js_ge filled (js_mul amount (Fin (99 / 100))))"

text \<open>The branch of the first callback for an order that is no longer open.\<close>

definition orderGone ::
  "(string \<Rightarrow> jsnum) \<Rightarrow> string \<Rightarrow> jsval \<Rightarrow> openOrder \<Rightarrow> dashboard \<Rightarrow> dashboard" where
  "orderGone pf now key prevOrder d =
     (let eventData =
            \<lparr>removalData.orderId = key,
             side = sideLabel (openOrder.side prevOrder),
             outcome = orElse (openOrder.outcome prevOrder) (Str ''N/A''),
             price = toFixed4 (parseFloat pf (openOrder.price prevOrder)),
             amount = toFixed4 (parseFloat pf (openOrder.amount prevOrder)),
             filled = toFixed4 (parseFloat pf (orElse (openOrder.filled prevOrder) (Num (Fin 0)))),
             title = dashboard.title d\<rparr>;
          d1 = addEvent now (if isFilled pf prevOrder then ''order_filled'' else ''order_removed'')
                 (Removal eventData) d;
          isManuallyCancelled = (key \<in> set (manuallyCancelledOrders d1));
          d2 = (if isFilled pf prevOrder
                then d1\<lparr>notifications := notifications d1 @ [notifyOrderFilled eventData]\<rparr>
                else if \<not> isManuallyCancelled
                then d1\<lparr>notifications := notifications d1 @ [notifyOrderRemoved eventData]\<rparr>
                else d1)
      in if isManuallyCancelled
         then d2\<lparr>manuallyCancelledOrders := removeAll key (manuallyCancelledOrders d2)\<rparr>
         else d2)"





section \<open>Sample inputs\<close>

text \<open>A reading of the decimal strings that the examples use; any other string is NaN.\<close>

definition sample_parseFloat :: "string \<Rightarrow> jsnum" where
  "sample_parseFloat s =
     (case map_of
        [(''0'', Fin 0), (''10'', Fin 10), (''9.98'', Fin (998 / 100)), (''90.00'', Fin 90),
         (''0.00'', Fin 0), (''100'', Fin 100), (''98.9'', Fin (989 / 10)),
         (''99.5'', Fin (995 / 10)), (''98.99996'', Fin (9899996 / 100000)),
         (''0.9'', Fin (9 / 10))] s of
        Some a \<Rightarrow> a
      | None \<Rightarrow> NaN)"

definition sample_params :: trackParams where
  "sample_params =
     \<lparr>trackParams.orderId = IntId 7, topicId = Str ''789'', position = Str ''YES'',
      side = Num (Fin 1), price = Str ''90.00'', amount = Str ''10''\<rparr>"

definition new_manager :: manager where
  "new_manager = \<lparr>trackedOrders = [], storageFile = None, isInitialized = True, journal = []\<rparr>"

text \<open>A world in which the book is 0.91 / 0.93 and the exchange accepts the sell order.\<close>

definition sample_world :: world where
  "sample_world =
     \<lparr>filledClock = ''T1'', bookResult = Book (book_of [91 / 100] [93 / 100]),
      sellResult = SellReturns (Num (Fin 55)), clearedClock = ''T2''\<rparr>"


text \<open>The manager after order 7 was tracked, and after it was filled and cleared.\<close>

definition tracking_manager :: manager where
  "tracking_manager = fst (trackOrder sample_parseFloat ''T0'' sample_params new_manager)"




section \<open>Properties of the clearing price\<close>

lemma calculateClearPrice_missing_side:
  "bids book = None \<or> asks book = None \<Longrightarrow> calculateClearPrice costPrice book = None"
  by (auto simp add: calculateClearPrice_def split: option.splits list.splits)


text \<open>
  C1. The claim: a price that \<open>calculateClearPrice\<close> returns is above the best bid and not
  below the cost price, also after the rounding to three decimals. The source rounds after
  its safety check: with best bid 0.9301, best ask 0.9304 and cost 0.9 it returns 0.93,
  which is below the best bid, and with best bid 0.90, best ask 0.93 and cost 0.9304 it
  returns 0.93, which is below the cost price.
\<close>

theorem calculateClearPrice_rounds_below_floor:
  "calculateClearPrice (Fin (9 / 10)) (book_of [9301 / 10000] [9304 / 10000]) = Some (Fin (93 / 100))
   \<and> js_le (Fin (93 / 100)) (Fin (9301 / 10000))
   \<and> calculateClearPrice (Fin (9304 / 10000)) (book_of [90 / 100] [93 / 100]) = Some (Fin (93 / 100))
   \<and> js_lt (Fin (93 / 100)) (Fin (9304 / 10000))"
  by code_simp

text \<open>
  C4. The claim: for cost price 0.92, best bid 0.93 and best ask 0.94 no price is safe.
  The target after the cost floor is 0.94, which is above the best bid, so a price is
  returned.
\<close>

theorem scenario_092_not_null:
  "calculateClearPrice (Fin (92 / 100)) (book_of [93 / 100] [94 / 100]) \<noteq> None"
  by code_simp

text \<open>
  C4, as amended: for cost price 0.92, best bid 0.93 and best ask 0.94 the clearing price
  is 0.94.
\<close>

theorem scenario_092_price:
  "calculateClearPrice (Fin (92 / 100)) (book_of [93 / 100] [94 / 100]) = Some (Fin (94 / 100))"
  by code_simp



section \<open>The registry: reading the state after an operation\<close>

lemma get_save [simp]: "get (save m) k = get m k"
  by (simp add: get_def save_def)

lemma journal_save [simp]: "journal (save m) = journal m"
  by (simp add: save_def)

lemma isInitialized_save [simp]: "isInitialized (save m) = isInitialized m"
  by (simp add: save_def)

lemma trackedOrders_save [simp]: "trackedOrders (save m) = trackedOrders m"
  by (simp add: save_def)

lemma storageFile_save:
  "storageFile (save m) = Some (map (\<lambda>(k, t). (ToString k, toJSON t)) (trackedOrders m))"
  by (simp add: save_def)

lemma get_modify:
  "get (modify k f m) k' = (if k' = k then map_option f (get m k) else get m k')"
  by (simp add: get_def modify_def map_of_map_entry split: option.splits)

lemma journal_modify [simp]: "journal (modify k f m) = journal m"
  by (simp add: modify_def)

lemma isInitialized_modify [simp]: "isInitialized (modify k f m) = isInitialized m"
  by (simp add: modify_def)

lemma get_setStatus:
  "get (setStatus k st m) k' =
     (if k' = k then map_option (\<lambda>t. t\<lparr>trackedOrder.status := st\<rparr>) (get m k) else get m k')"
  by (simp add: setStatus_def get_def modify_def map_of_map_entry split: option.splits)

lemma journal_setStatus [simp]: "journal (setStatus k st m) = journal m @ [(k, st)]"
  by (simp add: setStatus_def)

lemma isInitialized_setStatus [simp]: "isInitialized (setStatus k st m) = isInitialized m"
  by (simp add: setStatus_def)


lemma createReverseClearOrder_fails:
  assumes "get m k = Some t" and "trackedOrder.side t = Num (Fin 1)"
      and "clearAttempt w t = Inl msg"
  shows "get (createReverseClearOrder w k m) k' =
           (if k' = k then Some (t\<lparr>trackedOrder.status := Error, errorMessage := Some msg\<rparr>)
            else get m k')"
    and "journal (createReverseClearOrder w k m) = journal m @ [(k, Clearing), (k, Error)]"
  using assms by (simp_all add: createReverseClearOrder_def Let_def get_setStatus get_modify)


lemma createReverseClearOrder_persists:
  assumes "get m k = Some t"
  shows "storageFile (createReverseClearOrder w k m) =
           Some (map (\<lambda>(k, t). (ToString k, toJSON t)) (trackedOrders (createReverseClearOrder w k m)))"
  using assms
  by (simp add: createReverseClearOrder_def Let_def storageFile_save split: sum.splits prod.splits)





lemma clearAttempt_messages:
  "clearAttempt w t = Inl msg \<Longrightarrow>
     msg = InvalidFilledShares \<or> msg = NoSafeClearPrice
     \<or> (\<exists>e. msg = Thrown e) \<or> (\<exists>e. msg = OrderBookUnavailable e)"
  by (auto simp add: clearAttempt_def Let_def
      split: if_splits bookResult.splits option.splits sellResult.splits)


section \<open>Properties of the registry\<close>







text \<open>
  C8. When the clearing of a tracked buy order fails, with the message \<open>msg\<close> (the
  filled-share count is missing or not positive, no price is safe, the book cannot be
  read, or a collaborator throws, among them the exchange client), the order ends with
  status error and \<open>errorMessage = msg\<close>; every other field, among them \<open>reverseOrderId\<close>,
  \<open>reversePrice\<close>, \<open>reverseShares\<close> and \<open>clearedAt\<close>, is as before, and the stored file
  holds the final registry.
\<close>

theorem createReverseClearOrder_failure:
  assumes "get m k = Some t" and "trackedOrder.side t = Num (Fin 1)"
      and "clearAttempt w t = Inl msg"
  shows "\<exists>t'. get (createReverseClearOrder w k m) k = Some t'
           \<and> trackedOrder.status t' = Error \<and> errorMessage t' = Some msg
           \<and> reverseOrderId t' = reverseOrderId t \<and> reversePrice t' = reversePrice t
           \<and> reverseShares t' = reverseShares t \<and> clearedAt t' = clearedAt t
           \<and> t' = t\<lparr>trackedOrder.status := Error, errorMessage := Some msg\<rparr>
           \<and> (msg = InvalidFilledShares \<or> msg = NoSafeClearPrice
                \<or> (\<exists>e. msg = Thrown e) \<or> (\<exists>e. msg = OrderBookUnavailable e))
           \<and> storageFile (createReverseClearOrder w k m) =
               Some (map (\<lambda>(k, t). (ToString k, toJSON t))
                      (trackedOrders (createReverseClearOrder w k m)))"
  using createReverseClearOrder_fails(1) [OF assms, of k] clearAttempt_messages [OF assms(3)]
    createReverseClearOrder_persists [OF assms(1), of w]
  by simp

theorem createReverseClearOrder_failure_witness:
  "(let m = modify (IntId 7) (\<lambda>t. t\<lparr>filledShares := Val (Fin 11)\<rparr>) tracking_manager;
        w = sample_world\<lparr>bookResult := Book (book_of [95 / 100] [94 / 100])\<rparr>;
        t = the (get m (IntId 7))
    in get m (IntId 7) = Some t \<and> trackedOrder.side t = Num (Fin 1)
       \<and> clearAttempt w t = Inl NoSafeClearPrice
       \<and> map_option trackedOrder.status (get (createReverseClearOrder w (IntId 7) m) (IntId 7))
           = Some Error
       \<and> map_option errorMessage (get (createReverseClearOrder w (IntId 7) m) (IntId 7))
           = Some (Some NoSafeClearPrice))"
proof -
  let ?m = "modify (IntId 7) (\<lambda>t. t\<lparr>filledShares := Val (Fin 11)\<rparr>) tracking_manager"
  let ?w = "sample_world\<lparr>bookResult := Book (book_of [95 / 100] [94 / 100])\<rparr>"
  let ?t = "the (get ?m (IntId 7))"
  have h1: "get ?m (IntId 7) = Some ?t" by code_simp
  have h2: "trackedOrder.side ?t = Num (Fin 1)" by code_simp
  have h3: "clearAttempt ?w ?t = Inl NoSafeClearPrice" by code_simp
  from createReverseClearOrder_failure [OF h1 h2 h3]
  obtain t' where "get (createReverseClearOrder ?w (IntId 7) ?m) (IntId 7) = Some t'"
    and "trackedOrder.status t' = Error" and "errorMessage t' = Some NoSafeClearPrice"
    by blast
  then show ?thesis
    using h1 h2 h3 unfolding Let_def by simp
qed



section \<open>The status of a tracked order over a run\<close>

lemma writes_append [simp]: "writes k (xs @ ys) = writes k xs @ writes k ys"
  by (simp add: writes_def)

lemma writes_Nil [simp]: "writes k [] = []"
  by (simp add: writes_def)

lemma writes_Cons [simp]: "writes k ((k', st) # j) = (if k' = k then st # writes k j else writes k j)"
  by (simp add: writes_def)

lemma lastof_lastof [simp]: "lastof (lastof xs @ ys) = lastof (xs @ ys)"
  by (simp add: lastof_def)

lemma current_length: "current m k = [] \<or> (\<exists>st. current m k = [st])"
  by (simp add: current_def split: option.splits)

lemma lastof_current [simp]: "lastof (current m k) = current m k"
  using current_length [of m k] by (auto simp add: lastof_def)

lemma forward_path_current [simp]: "forward_path (current m k)"
  using current_length [of m k] by auto







lemma writes_same_key [simp]: "writes k (map (Pair k) sts) = sts"
  by (induction sts) simp_all

lemma writes_other_key [simp]: "k' \<noteq> k \<Longrightarrow> writes k' (map (Pair k) sts) = []"
  by (induction sts) simp_all


lemma isInitialized_createReverseClearOrder [simp]:
  "isInitialized (createReverseClearOrder w k m) = isInitialized m"
  by (simp add: createReverseClearOrder_def Let_def split: option.splits sum.splits prod.splits)












section \<open>Saving and loading the registry\<close>














lemma json_num_idem [simp]: "json_num (json_num f) = json_num f"
  by (cases f) simp_all

lemma json_val_idem [simp]: "json_val (json_val v) = json_val v"
  by (cases v) simp_all

lemma toJSON_idem [simp]: "toJSON (toJSON t) = toJSON t"
  by (simp add: toJSON_def)







section \<open>The events of the snapshot differ\<close>




lemma addEvent_fields [simp]:
  "MAX_EVENT_HISTORY (addEvent now ty dat d) = MAX_EVENT_HISTORY d"
  "dashboard.title (addEvent now ty dat d) = dashboard.title d"
  "manuallyCancelledOrders (addEvent now ty dat d) = manuallyCancelledOrders d"
  by (simp_all add: addEvent_def)


lemma orderGone_fields [simp]:
  "MAX_EVENT_HISTORY (orderGone pf now key prevOrder d) = MAX_EVENT_HISTORY d"
  "dashboard.title (orderGone pf now key prevOrder d) = dashboard.title d"
  by (simp_all add: orderGone_def Let_def)



















end
